theory Spec2Isabelle
  imports Complex_Main
begin

section \<open>Python and numpy conventions\<close>

text \<open>
  The development embeds \<^verbatim>\<open>pypeit/wavetilts.py\<close> (class \<^verbatim>\<open>WaveTilts\<close>).
  Floating-point numbers are modelled by the reals, so every statement about a pixel
  value or a significance is a statement of exact arithmetic. Exceptions are values of
  the type \<open>error\<close>; a function that can raise returns \<open>error + 'a\<close>.
\<close>

datatype error =
    ValueError | IndexError | TypeError | KeyError | NameError
  | AttributeError | OSError | PypeItError

text \<open>Boolean-mask indexing \<^verbatim>\<open>xs[m]\<close>: numpy refuses a mask of another length.\<close>

definition np_mask :: "'a list \<Rightarrow> bool list \<Rightarrow> error + 'a list" where
  "np_mask xs m =
     (if length m \<noteq> length xs then Inl IndexError
      else Inr (map fst (filter snd (zip xs m))))"

text \<open>\<^verbatim>\<open>np.min\<close> of a one-dimensional array; the empty array has no minimum.\<close>

fun np_min :: "real list \<Rightarrow> error + real" where
  "np_min [] = Inl ValueError"
| "np_min (x # xs) = Inr (fold min xs x)"

section \<open>Line selection (\<^verbatim>\<open>_trace_tilts\<close>, lines 320 to 343)\<close>

text \<open>
  \<^verbatim>\<open>aduse = np.zeros(arcdet.size, dtype=np.bool)
  w = np.where(nsig >= tracethresh)
  aduse[w] = 1\<close>
  Both \<open>arcdet\<close> and \<open>nsig\<close> are cut out of the detector's peak arrays by the one mask
  \<open>wgood\<close>, so they have one length wherever this code is reached.
\<close>

definition thresh_mark :: "real \<Rightarrow> real list \<Rightarrow> real list \<Rightarrow> bool list" where
  "thresh_mark tracethresh arcdet nsig =
     map (\<lambda>i. nsig ! i \<ge> tracethresh) [0..<length arcdet]"

text \<open>\<^verbatim>\<open>np.arange(arcdet.size)[aduse]\<close>: the indices flagged in \<open>aduse\<close>, ascending.\<close>

definition idx_where :: "bool list \<Rightarrow> nat list" where
  "idx_where aduse = filter (\<lambda>i. aduse ! i) [0..<length aduse]"

text \<open>
  \<^verbatim>\<open>w = np.where((np.abs(arcdet - detuse[s]) <= n_neigh)
                 & (np.abs(arcdet - detuse[s]) >= 1.0))[0]\<close>
\<close>

definition near :: "real \<Rightarrow> real list \<Rightarrow> real \<Rightarrow> nat list" where
  "near n_neigh arcdet x =
     filter (\<lambda>i. \<bar>arcdet ! i - x\<bar> \<le> n_neigh \<and> \<bar>arcdet ! i - x\<bar> \<ge> 1) [0..<length arcdet]"

text \<open>
  The loop \<^verbatim>\<open>for s in range(nuse)\<close>. The inner loop over \<open>w\<close> clears
  \<^verbatim>\<open>aduse[idxuse[s]]\<close> and breaks at the first neighbour whose significance is strictly
  larger than \<^verbatim>\<open>nsig[olduse][s]\<close>; that is \<open>list_ex\<close> over \<open>w\<close>.
\<close>

fun neigh_loop ::
  "real \<Rightarrow> real list \<Rightarrow> real list \<Rightarrow> real list \<Rightarrow> nat list \<Rightarrow> real list
     \<Rightarrow> nat list \<Rightarrow> bool list \<Rightarrow> bool list" where
  "neigh_loop n_neigh arcdet nsig detuse idxuse nsiguse [] aduse = aduse"
| "neigh_loop n_neigh arcdet nsig detuse idxuse nsiguse (s # ss) aduse =
     (let w = near n_neigh arcdet (detuse ! s)
      in neigh_loop n_neigh arcdet nsig detuse idxuse nsiguse ss
           (if list_ex (\<lambda>u. nsig ! u > nsiguse ! s) w
            then aduse[idxuse ! s := False] else aduse))"

text \<open>
  The loop \<^verbatim>\<open>for s in idxuse\<close> of the restriction to identified lines:
  \<^verbatim>\<open>if np.min(np.abs(arcdet[s] - ids_pix)) > 2.0: aduse[s] = False\<close>.
\<close>

fun ids_loop :: "real list \<Rightarrow> real list \<Rightarrow> nat list \<Rightarrow> bool list \<Rightarrow> error + bool list" where
  "ids_loop arcdet ids_pix [] aduse = Inr aduse"
| "ids_loop arcdet ids_pix (s # ss) aduse =
     (case np_min (map (\<lambda>p. \<bar>arcdet ! s - p\<bar>) ids_pix) of
        Inl e \<Rightarrow> Inl e
      | Inr d \<Rightarrow> ids_loop arcdet ids_pix ss (if d > 2 then aduse[s := False] else aduse))"

text \<open>
  Lines 320 to 343 as one function of the values the source fixes a few lines above
  (\<open>tracethresh\<close>, \<open>n_neigh\<close>, \<open>only_these_lines\<close>) and of the detected peaks.
\<close>

definition select_lines ::
  "real \<Rightarrow> real \<Rightarrow> real list option \<Rightarrow> real list \<Rightarrow> real list \<Rightarrow> error + bool list" where
  "select_lines tracethresh n_neigh only_these_lines arcdet nsig =
     (let aduse = thresh_mark tracethresh arcdet nsig;
          nuse = length (filter id aduse);
          detuse = map ((!) arcdet) (idx_where aduse);
          idxuse = idx_where aduse;
          olduse = aduse;
          aduse2 = neigh_loop n_neigh arcdet nsig detuse idxuse
                     (map ((!) nsig) (idx_where olduse)) [0..<nuse] aduse
      in case only_these_lines of
           None \<Rightarrow> Inr aduse2
         | Some ids_pix \<Rightarrow> ids_loop arcdet ids_pix (idx_where aduse2) aduse2)"

section \<open>Indexing, slices and assignment\<close>

text \<open>Sequencing of computations that may raise.\<close>

definition err_bind :: "error + 'a \<Rightarrow> ('a \<Rightarrow> error + 'b) \<Rightarrow> error + 'b" where
  "err_bind m f = (case m of Inl e \<Rightarrow> Inl e | Inr v \<Rightarrow> f v)"

text \<open>\<^verbatim>\<open>xs[i]\<close> for an integer \<open>i\<close>: an index below zero counts from the end.\<close>

definition py_get :: "'a list \<Rightarrow> int \<Rightarrow> error + 'a" where
  "py_get xs i =
     (if 0 \<le> i \<and> i < int (length xs) then Inr (xs ! nat i)
      else if i < 0 \<and> 0 \<le> i + int (length xs) then Inr (xs ! nat (i + int (length xs)))
      else Inl IndexError)"

text \<open>
  The rows \<open>lo..<hi\<close> selected by \<^verbatim>\<open>xs[a:b]\<close> on a sequence of length \<open>n\<close>; \<open>None\<close> is an
  omitted bound. A negative bound is taken from the end, and both are clamped.
\<close>

definition py_bound :: "nat \<Rightarrow> int \<Rightarrow> nat" where
  "py_bound n i = (if i < 0 then nat (max 0 (i + int n)) else nat (min i (int n)))"

definition py_slice :: "nat \<Rightarrow> int option \<Rightarrow> int option \<Rightarrow> nat \<times> nat" where
  "py_slice n a b =
     (let lo = (case a of None \<Rightarrow> 0 | Some i \<Rightarrow> py_bound n i);
          hi = (case b of None \<Rightarrow> n | Some i \<Rightarrow> py_bound n i)
      in (lo, max lo hi))"

definition get_slice :: "'a list \<Rightarrow> nat \<times> nat \<Rightarrow> 'a list" where
  "get_slice xs s = take (snd s - fst s) (drop (fst s) xs)"

text \<open>
  \<^verbatim>\<open>xs[lo:hi] = vs\<close> for one-dimensional arrays: numpy wants as many values as there
  are places, or a single value that it repeats, and raises \<open>ValueError\<close> otherwise.
  \<open>np_fill_slice\<close> is the assignment of a scalar.
\<close>

definition np_fill_slice :: "'a list \<Rightarrow> nat \<times> nat \<Rightarrow> 'a \<Rightarrow> 'a list" where
  "np_fill_slice xs s v = take (fst s) xs @ replicate (snd s - fst s) v @ drop (snd s) xs"

definition np_set_slice :: "'a list \<Rightarrow> nat \<times> nat \<Rightarrow> 'a list \<Rightarrow> error + 'a list" where
  "np_set_slice xs s vs =
     (if length vs = snd s - fst s then Inr (take (fst s) xs @ vs @ drop (snd s) xs)
      else if length vs = 1 then Inr (np_fill_slice xs s (hd vs))
      else Inl ValueError)"

section \<open>Storing one traced line (\<^verbatim>\<open>_trace_tilts\<close>, lines 381 to 409)\<close>

text \<open>
  One pass of \<^verbatim>\<open>for iline in range(nlines)\<close> writes column \<open>iline\<close> of six arrays and
  nothing else, so a pass is modelled on these six columns: three of length \<open>nsub\<close>
  (the trace window) and three of length \<open>nspat\<close> (the detector).
\<close>

record line_cols =
  tilts_sub :: "real list"
  tilts_sub_err :: "real list"
  tilts_sub_mask :: "bool list"
  tilts_img :: "real list"
  tilts_err :: "real list"
  tilts_mask :: "bool list"

text \<open>The columns as \<^verbatim>\<open>np.zeros\<close> creates them (lines 364 to 372).\<close>

definition zero_cols :: "nat \<Rightarrow> nat \<Rightarrow> line_cols" where
  "zero_cols nsub nspat =
     \<lparr>tilts_sub = replicate nsub 0, tilts_sub_err = replicate nsub 0,
      tilts_sub_mask = replicate nsub False,
      tilts_img = replicate nspat 0, tilts_err = replicate nspat 0,
      tilts_mask = replicate nspat False\<rparr>"

text \<open>
  The detector rows \<^verbatim>\<open>np.fmax(spat_min,0):np.fmin(spat_max,nspat-1)\<close> cut out of
  \<open>arcimg_trans\<close> and written in \<open>tilts\<close>, and the window rows written in \<open>tilts_sub\<close>
  by the three branches that follow \<^verbatim>\<open># Deal with possibly falling off the chip\<close>.
\<close>

definition det_rows :: "nat \<Rightarrow> int \<Rightarrow> int \<Rightarrow> nat \<times> nat" where
  "det_rows nspat spat_min spat_max =
     py_slice nspat (Some (max spat_min 0)) (Some (min spat_max (int nspat - 1)))"

definition win_rows :: "nat \<Rightarrow> nat \<Rightarrow> int \<Rightarrow> int \<Rightarrow> nat \<times> nat" where
  "win_rows nsub nspat spat_min spat_max =
     (if spat_min < 0 then py_slice nsub (Some (- spat_min)) None
      else if spat_max > int nspat - 1
        then py_slice nsub None (Some (- (spat_max - int nspat + 1)))
      else py_slice nsub None None)"

definition store_line ::
  "nat \<Rightarrow> int \<Rightarrow> int \<Rightarrow> real list \<Rightarrow> real list \<Rightarrow> line_cols \<Rightarrow> error + line_cols" where
  "store_line nspat spat_min spat_max tilts_now err_now c =
     (let w = win_rows (length (tilts_sub c)) nspat spat_min spat_max;
          d = det_rows nspat spat_min spat_max
      in err_bind (np_set_slice (tilts_sub c) w tilts_now) (\<lambda>s1.
         err_bind (np_set_slice (tilts_sub_err c) w err_now) (\<lambda>s2.
         let s3 = np_fill_slice (tilts_sub_mask c) w True
         in err_bind (np_set_slice (tilts_img c) d (get_slice s1 w)) (\<lambda>t1.
            err_bind (np_set_slice (tilts_err c) d (get_slice s2 w)) (\<lambda>t2.
            err_bind (np_set_slice (tilts_mask c) d (get_slice s3 w)) (\<lambda>t3.
            Inr \<lparr>tilts_sub = s1, tilts_sub_err = s2, tilts_sub_mask = s3,
                 tilts_img = t1, tilts_err = t2, tilts_mask = t3\<rparr>))))))"

section \<open>Calibration files\<close>

text \<open>
  A FITS file is its list of HDUs; each has a name, header cards and a data array. The
  file system maps a name to the file stored under it.
\<close>

datatype ndarray = NoData | Arr2 "real list list" | Arr3 "real list list list"

record hdu =
  hdu_name :: string
  hdu_header :: "string \<rightharpoonup> string"
  hdu_data :: ndarray

datatype fits_file = NotFits | Fits "hdu list"

type_synonym filesystem = "string \<rightharpoonup> fits_file"

text \<open>\<^verbatim>\<open>fits.open\<close> on an existing file: a file that is no FITS file is refused.\<close>

definition fits_open :: "fits_file \<Rightarrow> error + hdu list" where
  "fits_open f = (case f of NotFits \<Rightarrow> Inl OSError | Fits hdul \<Rightarrow> Inr hdul)"

text \<open>
  Modelled from the spec: \<^verbatim>\<open>msgs.error\<close> of \<^verbatim>\<open>pypeit.msgs\<close> is not among the sources;
  the specification calls the condition it reports fatal, so the call raises.
\<close>

definition msgs_error :: "error + 'a" where
  "msgs_error = Inl PypeItError"

record tilts_dict =
  d_tilts :: ndarray
  d_coeffs :: ndarray
  d_func2D :: string

text \<open>\<^verbatim>\<open>WaveTilts.load_master(filename, exten=0, force=False)\<close>; \<open>None\<close> is Python's.\<close>

definition load_master :: "filesystem \<Rightarrow> string \<Rightarrow> bool \<Rightarrow> error + tilts_dict option" where
  "load_master fs filename force =
     (case fs filename of
        None \<Rightarrow> (if force then msgs_error else Inr None)
      | Some f \<Rightarrow>
          err_bind (fits_open f) (\<lambda>hdul.
          err_bind (py_get hdul 0) (\<lambda>h0.
          err_bind (py_get hdul 1) (\<lambda>h1.
          case hdu_header h1 ''FUNC2D'' of
            None \<Rightarrow> Inl KeyError
          | Some func2D \<Rightarrow>
              Inr (Some \<lparr>d_tilts = hdu_data h0, d_coeffs = hdu_data h1,
                          d_func2D = func2D\<rparr>)))))"

section \<open>Arrays\<close>

text \<open>
  A two-dimensional array is the list of its rows. An array without rows is the empty
  list, whatever its second dimension in numpy. The shapes of the arrays that meet in
  an operation are compared row by row.
\<close>

type_synonym image = "real list list"

definition shape0 :: "'a list list \<Rightarrow> nat" where
  "shape0 a = length a"

definition shape1 :: "'a list list \<Rightarrow> nat" where
  "shape1 a = (case a of [] \<Rightarrow> 0 | r # _ \<Rightarrow> length r)"

text \<open>\<^verbatim>\<open>a[:, j]\<close>\<close>

definition column :: "'a list list \<Rightarrow> nat \<Rightarrow> error + 'a list" where
  "column a j = (if j < shape1 a then Inr (map (\<lambda>r. r ! j) a) else Inl IndexError)"

text \<open>\<^verbatim>\<open>a.T\<close>\<close>

definition np_transpose :: "'a list list \<Rightarrow> 'a list list" where
  "np_transpose a = map (\<lambda>j. map (\<lambda>r. r ! j) a) [0..<shape1 a]"

text \<open>\<^verbatim>\<open>np.zeros_like(a)\<close>\<close>

definition zeros_like :: "image \<Rightarrow> image" where
  "zeros_like a = map (map (\<lambda>_. 0)) a"

text \<open>
  \<^verbatim>\<open>np.linspace(0.0, 1.0, num)\<close>: the step is \<open>1 / (num - 1)\<close>, sample \<open>r\<close> is \<open>r\<close> times the
  step, and the last sample is set to the end point; one sample is the start point.
\<close>

definition linspace01 :: "nat \<Rightarrow> real list" where
  "linspace01 num =
     (if num = 0 then []
      else if num = 1 then [0]
      else map (\<lambda>r. real r * (1 / real (num - 1))) [0..<num - 1] @ [1])"

text \<open>\<^verbatim>\<open>np.outer(a, b)\<close> and \<^verbatim>\<open>np.ones(n)\<close>\<close>

definition outer :: "real list \<Rightarrow> real list \<Rightarrow> image" where
  "outer a b = map (\<lambda>x. map (\<lambda>y. x * y) b) a"

definition ones :: "nat \<Rightarrow> real list" where
  "ones n = replicate n 1"

text \<open>
  An operation on two one-dimensional arrays, element by element; an array of length 1
  is repeated, other lengths must agree.
\<close>

definition np_zip :: "('a \<Rightarrow> 'b \<Rightarrow> 'c) \<Rightarrow> 'a list \<Rightarrow> 'b list \<Rightarrow> error + 'c list" where
  "np_zip f a b =
     (if length a = length b then Inr (map2 f a b)
      else if length a = 1 then Inr (map (f (hd a)) b)
      else if length b = 1 then Inr (map (\<lambda>x. f x (hd b)) a)
      else Inl ValueError)"

text \<open>\<^verbatim>\<open>arcimg * thismask\<close> for arrays of one shape.\<close>

definition mask_image :: "image \<Rightarrow> bool list list \<Rightarrow> error + image" where
  "mask_image a m =
     (if map length a \<noteq> map length m then Inl ValueError
      else Inr (map2 (map2 (\<lambda>v b. if b then v else 0)) a m))"

text \<open>\<^verbatim>\<open>a.max()\<close> of a one-dimensional array.\<close>

fun np_max :: "real list \<Rightarrow> error + real" where
  "np_max [] = Inl ValueError"
| "np_max (x # xs) = Inr (fold max xs x)"

text \<open>
  \<^verbatim>\<open>np.interp(x, np.arange(n), fp)\<close> for \<open>n = length fp\<close>: linear between the samples,
  constant outside them.
\<close>

definition np_interp :: "real \<Rightarrow> nat \<Rightarrow> real list \<Rightarrow> error + real" where
  "np_interp x n fp =
     (if length fp \<noteq> n \<or> n = 0 then Inl ValueError
      else if x \<le> 0 then Inr (fp ! 0)
      else if x \<ge> real (n - 1) then Inr (fp ! (n - 1))
      else let j = nat \<lfloor>x\<rfloor>
           in Inr ((fp ! (j + 1) - fp ! j) * (x - real j) + fp ! j))"

text \<open>\<^verbatim>\<open>np.round(x).astype(int)\<close>: a half is rounded to the even neighbour.\<close>

definition np_round :: "real \<Rightarrow> int" where
  "np_round x =
     (let f = \<lfloor>x\<rfloor>; d = x - of_int f
      in if d < 1 / 2 then f else if d > 1 / 2 then f + 1
         else if even f then f else f + 1)"

text \<open>\<^verbatim>\<open>str.lower\<close> on the ASCII letters.\<close>

definition lower_char :: "char \<Rightarrow> char" where
  "lower_char c =
     (let n = (of_char c :: nat)
      in if 65 \<le> n \<and> n \<le> 90 then char_of (n + 32) else c)"

definition lower :: "string \<Rightarrow> string" where
  "lower s = map lower_char s"

section \<open>The \<^verbatim>\<open>WaveTilts\<close> object and its collaborators\<close>

text \<open>The value of \<^verbatim>\<open>self.par['tracethresh']\<close>, by its Python type.\<close>

datatype par_value =
    PyFloat real | PyInt int | PyBool bool | PyList "real list" | PyArray "real list"
  | PyStr string | PyNone

record pars =
  p_method :: string
  p_tracethresh :: par_value
  p_order :: nat
  p_yorder :: nat
  p_func2D :: string

record tslits =
  lcen :: image
  rcen :: image

text \<open>
  The trace dictionary of one slit, with the keys that \<^verbatim>\<open>save_master\<close> reads and
  \<^verbatim>\<open>from_master_files\<close> writes; an entry of \<open>xtfit\<close> or \<open>ytfit\<close> may be \<open>None\<close>.
\<close>

record trcdict =
  t_xtfit :: "real list option list"
  t_ytfit :: "real list option list"
  t_xmodel :: "real list list"
  t_ymodel :: "real list list"
  t_ycen :: "real list"
  t_aduse :: "bool list"

text \<open>The tuple of two-dimensional arrays that \<^verbatim>\<open>tracewave.analyze_lines\<close> returns.\<close>

type_synonym ttilts = "image list"

record WaveTilts =
  par :: pars
  msarc :: image
  tslits_dict :: "tslits option"
  det :: "int option"
  nslit :: nat
  steps :: "string list"
  slitmask :: "int list list option"
  mask :: "bool list option"
  arccen :: "image option"
  arc_maskslit :: "int list option"
  all_trcdict :: "trcdict option list"
  tilts :: "image option"
  all_ttilts :: "ttilts option list"
  badlines :: "int option"
  final_tilts :: "image option"
  coeffs :: "real list list list option"
  self_tilts_dict :: "tilts_dict option"

text \<open>\<^verbatim>\<open>WaveTilts.__init__\<close>, for the attributes above.\<close>

definition WaveTilts_init ::
  "image \<Rightarrow> pars \<Rightarrow> int option \<Rightarrow> tslits option \<Rightarrow> WaveTilts" where
  "WaveTilts_init arc p d ts =
     (let n = (case ts of None \<Rightarrow> 0 | Some t \<Rightarrow> shape1 (lcen t))
      in \<lparr>par = p, msarc = arc, tslits_dict = ts, det = d, nslit = n, steps = [],
          slitmask = None, mask = None, arccen = None, arc_maskslit = None,
          all_trcdict = replicate n None, tilts = None, all_ttilts = replicate n None,
          badlines = None, final_tilts = None, coeffs = None, self_tilts_dict = None\<rparr>)"

text \<open>
  The functions of this repository that \<^verbatim>\<open>wavetilts.py\<close> calls and that are not among
  the sources are parameters: each field is the result of the call, as a function of
  the arguments that the model passes on, and a call may raise.
  \<^item> \<open>spectrograph_slitmask\<close>: \<^verbatim>\<open>self.spectrograph.slitmask(self.tslits_dict)\<close>, the slit
    index of every pixel.
  \<^item> \<open>spectrograph_detector\<close>: \<^verbatim>\<open>self.spectrograph.detector\<close>, saturation and
    non-linearity fraction of each detector.
  \<^item> \<open>arc_get_censpec\<close>: \<^verbatim>\<open>arc.get_censpec\<close>, the arc spectra (one column per slit) and
    the slit flags.
  \<^item> \<open>pixels_slit_pixels\<close>: \<^verbatim>\<open>pixels.slit_pixels(lcen, rcen, nspat)\<close>.
  \<^item> \<open>arc_detect_lines\<close>: \<^verbatim>\<open>arc.detect_lines\<close> on an arc spectrum and the non-linear
    count; of its eight results \<open>tcent_tot\<close>, \<open>nsig_tot\<close> and \<open>wgood\<close> are used.
  \<^item> \<open>trace_crude_init\<close>: \<^verbatim>\<open>trace_slits.trace_crude_init\<close> on the sub-image, the line
    position, the start row and the inverse variance; the two flattened results.
  \<^item> \<open>tracewave_analyze_lines\<close>, \<open>tracewave_fit_tilts\<close>: the line models and the
    surface fit of a slit, from the slit index and its trace dictionary or line models.
\<close>

record collaborators =
  spectrograph_slitmask :: "int list list"
  spectrograph_detector :: "(real \<times> real) list"
  arc_get_censpec :: "error + image \<times> int list"
  pixels_slit_pixels :: "int list list"
  arc_detect_lines :: "real list \<Rightarrow> real \<Rightarrow> error + real list \<times> real list \<times> bool list"
  trace_crude_init :: "image \<Rightarrow> real \<Rightarrow> int \<Rightarrow> image \<Rightarrow> error + real list \<times> real list"
  tracewave_analyze_lines :: "nat \<Rightarrow> trcdict option \<Rightarrow> error + int \<times> ttilts"
  tracewave_fit_tilts :: "nat \<Rightarrow> ttilts option \<Rightarrow> error + image \<times> image"

section \<open>\<^verbatim>\<open>_extract_arcs\<close>\<close>

definition extract_arcs ::
  "collaborators \<Rightarrow> WaveTilts \<Rightarrow> WaveTilts \<times> (error + image \<times> int list)" where
  "extract_arcs env self =
     (case tslits_dict self of
        None \<Rightarrow> (self, Inl TypeError)
      | Some ts \<Rightarrow>
         (case arc_get_censpec env of
            Inl e \<Rightarrow> (self, Inl e)
          | Inr (ac, am) \<Rightarrow>
              (self\<lparr>arccen := Some ac, arc_maskslit := Some am,
                    steps := steps self @ [''_extract_arcs'']\<rparr>, Inr (ac, am))))"

section \<open>\<^verbatim>\<open>_trace_tilts\<close>\<close>

text \<open>Lines 261 to 267: the threshold parameter is a number or is indexed by the slit.\<close>

definition get_tracethresh :: "par_value \<Rightarrow> nat \<Rightarrow> error + real" where
  "get_tracethresh v slit =
     (case v of
        PyFloat x \<Rightarrow> Inr x
      | PyInt i \<Rightarrow> Inr (of_int i)
      | PyBool b \<Rightarrow> Inr (if b then 1 else 0)
      | PyList xs \<Rightarrow> py_get xs (int slit)
      | PyArray xs \<Rightarrow> py_get xs (int slit)
      | PyStr s \<Rightarrow> Inl ValueError
      | PyNone \<Rightarrow> Inl ValueError)"

text \<open>Lines 269 and 270; \<^verbatim>\<open>self.det - 1\<close> fails on \<open>None\<close>.\<close>

definition nonlinear_counts :: "collaborators \<Rightarrow> WaveTilts \<Rightarrow> error + real" where
  "nonlinear_counts env self =
     (case det self of
        None \<Rightarrow> Inl TypeError
      | Some d \<Rightarrow>
          err_bind (py_get (spectrograph_detector env) (d - 1)) (\<lambda>sat_nl.
          Inr (fst sat_nl * snd sat_nl)))"

text \<open>
  Lines 355 to 362: the half width of the trace window and the spatial pixel of every
  selected line on the slit centre.
\<close>

definition trace_int_of :: "real list \<Rightarrow> real list \<Rightarrow> error + int" where
  "trace_int_of slit_left slit_righ =
     err_bind (np_zip (\<lambda>r l. r - l) slit_righ slit_left) (\<lambda>wid.
     err_bind (np_max wid) (\<lambda>m.
     let slit_widp2 = \<lceil>m\<rceil> + 2;
         trace_int_even = (if slit_widp2 mod 2 = 0 then slit_widp2 else slit_widp2 + 1)
     in Inr (trace_int_even div 2)))"

fun interp_all :: "real list \<Rightarrow> nat \<Rightarrow> real list \<Rightarrow> error + real list" where
  "interp_all [] n fp = (if length fp \<noteq> n \<or> n = 0 then Inl ValueError else Inr [])"
| "interp_all (x # xs) n fp =
     err_bind (np_interp x n fp) (\<lambda>y.
     err_bind (interp_all xs n fp) (\<lambda>ys. Inr (y # ys)))"

text \<open>
  Lines 381 to 409, the loop over the selected lines: the window of the line, the
  sub-image handed to the crude tracer, and the storing of what it returns. The result
  is the list of the columns written, one entry per line.
\<close>

fun trace_lines ::
  "collaborators \<Rightarrow> nat \<Rightarrow> nat \<Rightarrow> int \<Rightarrow> image \<Rightarrow> image \<Rightarrow> (real \<times> int) list
     \<Rightarrow> error + line_cols list" where
  "trace_lines env nspat nsub trace_int arcimg_trans inmask [] = Inr []"
| "trace_lines env nspat nsub trace_int arcimg_trans inmask ((line_spec, line_spat_int) # ls) =
     (let spat_min = line_spat_int - trace_int;
          spat_max = line_spat_int + trace_int + 1;
          rows = py_slice (length arcimg_trans) (Some (max spat_min 0))
                   (Some (min spat_max (int nspat - 1)));
          sub_img = get_slice arcimg_trans rows;
          sub_inmask = get_slice inmask rows
      in err_bind (trace_crude_init env sub_img line_spec ((int (length sub_img) - 1) div 2)
                     sub_inmask) (\<lambda>(tilts_now, err_now).
         err_bind (store_line nspat spat_min spat_max tilts_now err_now
                     (zero_cols nsub nspat)) (\<lambda>c.
         err_bind (trace_lines env nspat nsub trace_int arcimg_trans inmask ls) (\<lambda>cs.
         Inr (c # cs)))))"

text \<open>
  \<^verbatim>\<open>_trace_tilts(slit, wv_calib)\<close>. The source overwrites the threshold it has just read
  with 10.0 (line 290) and fixes \<open>only_these_lines = None\<close> and \<open>n_neigh = 15\<close>. No
  statement before line 453 assigns to an attribute of \<open>self\<close>, so the state is not
  returned. After the loop over the lines the interactive shell and the display are
  taken to return; line 419 then reads the names \<open>msarc_trans\<close> and \<open>xcen_tcrude\<close>, which
  are bound nowhere in the module, and raises \<open>NameError\<close>. Lines 423 to 457 are not
  reached.
\<close>

definition trace_tilts :: "collaborators \<Rightarrow> WaveTilts \<Rightarrow> nat \<Rightarrow> error + trcdict option" where
  "trace_tilts env self slit =
     err_bind (get_tracethresh (p_tracethresh (par self)) slit) (\<lambda>tracethresh_in.
     err_bind (nonlinear_counts env self) (\<lambda>nonlinear.
     let nspat = shape1 (msarc self); arcimg = msarc self
     in case arccen self of None \<Rightarrow> Inl TypeError | Some ac \<Rightarrow>
        err_bind (column ac slit) (\<lambda>arc_spec.
        case tslits_dict self of None \<Rightarrow> Inl TypeError | Some ts \<Rightarrow>
        err_bind (column (lcen ts) slit) (\<lambda>slit_left.
        err_bind (column (rcen ts) slit) (\<lambda>slit_righ.
        let thismask = map (map (\<lambda>v. v = int slit)) (pixels_slit_pixels env);
            nspec = shape0 arcimg
        in err_bind (arc_detect_lines env arc_spec nonlinear) (\<lambda>(tcent_tot, nsig_tot, wgood).
           err_bind (np_mask tcent_tot wgood) (\<lambda>arcdet.
           err_bind (np_mask nsig_tot wgood) (\<lambda>nsig.
           err_bind (select_lines 10 15 None arcdet nsig) (\<lambda>aduse.
           err_bind (np_mask arcdet aduse) (\<lambda>lines_spec.
           if length lines_spec = 0 then Inr None
           else
             err_bind (np_zip (\<lambda>l r. (l + r) / 2) slit_left slit_righ) (\<lambda>slit_cen.
             err_bind (trace_int_of slit_left slit_righ) (\<lambda>trace_int.
             if 2 * trace_int + 1 < 0 then Inl ValueError
             else
               err_bind (interp_all lines_spec nspec slit_cen) (\<lambda>lines_spat.
               err_bind (mask_image arcimg thismask) (\<lambda>masked.
               let arcimg_trans = np_transpose masked;
                   inmask = np_transpose (map (map (\<lambda>b. if b then 1 else 0)) thismask)
               in err_bind (trace_lines env nspat (nat (2 * trace_int + 1)) trace_int
                              arcimg_trans inmask
                              (zip lines_spec (map np_round lines_spat))) (\<lambda>cols.
                  Inl NameError)))))))))))))))"

section \<open>\<^verbatim>\<open>_analyze_lines\<close> and \<^verbatim>\<open>_fit_tilts\<close>\<close>

definition analyze_lines :: "collaborators \<Rightarrow> WaveTilts \<Rightarrow> nat \<Rightarrow> WaveTilts \<times> (error + int)" where
  "analyze_lines env self slit =
     (case py_get (all_trcdict self) (int slit) of
        Inl e \<Rightarrow> (self, Inl e)
      | Inr trc \<Rightarrow>
         (case tslits_dict self of
            None \<Rightarrow> (self, Inl TypeError)
          | Some ts \<Rightarrow>
             (case tracewave_analyze_lines env slit trc of
                Inl e \<Rightarrow> (self, Inl e)
              | Inr (bad, tt) \<Rightarrow>
                  if slit < length (all_ttilts self)
                  then (self\<lparr>badlines := Some bad,
                             all_ttilts := (all_ttilts self)[slit := Some tt],
                             steps := steps self @ [''_analyze_lines'']\<rparr>, Inr bad)
                  else (self\<lparr>badlines := Some bad\<rparr>, Inl IndexError))))"

definition fit_tilts ::
  "collaborators \<Rightarrow> WaveTilts \<Rightarrow> nat \<Rightarrow> WaveTilts \<times> (error + image \<times> image)" where
  "fit_tilts env self slit =
     (case py_get (all_ttilts self) (int slit) of
        Inl e \<Rightarrow> (self, Inl e)
      | Inr tt \<Rightarrow>
         (case tracewave_fit_tilts env slit tt of
            Inl e \<Rightarrow> (self, Inl e)
          | Inr (fitted, cf) \<Rightarrow>
              (self\<lparr>tilts := Some fitted, steps := steps self @ [''_fit_tilts'']\<rparr>,
               Inr (fitted, cf))))"

section \<open>\<^verbatim>\<open>run\<close>\<close>

text \<open>
  \<^verbatim>\<open>self.coeffs[:,:,slit] = c\<close> on the tensor of shape \<open>(order + 2, yorder + 1, nslit)\<close>,
  held as \<open>coeffs ! i ! j ! slit\<close>: the slit must exist, and the two dimensions of \<open>c\<close>
  must agree with the first two of the tensor or be 1.
\<close>

definition set_coeffs ::
  "real list list list \<Rightarrow> nat \<Rightarrow> nat \<Rightarrow> image \<Rightarrow> error + real list list list" where
  "set_coeffs cs n2 slit c =
     (let n0 = shape0 cs; n1 = shape1 cs; a = shape0 c; b = shape1 c
      in if n2 \<le> slit then Inl IndexError
         else if \<not> ((a = n0 \<or> a = 1) \<and> (b = n1 \<or> b = 1)) then Inl ValueError
         else Inr (map (\<lambda>i. map (\<lambda>j.
                (cs ! i ! j)[slit := c ! (if a = 1 then 0 else i) ! (if b = 1 then 0 else j)])
                [0..<n1]) [0..<n0]))"

text \<open>
  \<^verbatim>\<open>word = self.slitmask == slit
  self.final_tilts[word] = self.tilts[word]\<close>
  A boolean index must have the shape of the array it indexes.
\<close>

definition put_slit :: "image \<Rightarrow> image \<Rightarrow> int list list \<Rightarrow> nat \<Rightarrow> error + image" where
  "put_slit ft fitted sm slit =
     (if map length sm \<noteq> map length fitted \<or> map length sm \<noteq> map length ft
      then Inl IndexError
      else Inr (map (\<lambda>r. map (\<lambda>c. if sm ! r ! c = int slit then fitted ! r ! c else ft ! r ! c)
                  [0..<length (ft ! r)]) [0..<length ft]))"

text \<open>The body of \<^verbatim>\<open>for slit in gdslits\<close> (lines 506 to 518).\<close>

definition slit_body :: "collaborators \<Rightarrow> WaveTilts \<Rightarrow> nat \<Rightarrow> WaveTilts \<times> (error + unit)" where
  "slit_body env self slit =
     (case trace_tilts env self slit of
        Inl e \<Rightarrow> (self, Inl e)
      | Inr _ \<Rightarrow>
         (case analyze_lines env self slit of
            (s1, Inl e) \<Rightarrow> (s1, Inl e)
          | (s1, Inr _) \<Rightarrow>
             (case fit_tilts env s1 slit of
                (s2, Inl e) \<Rightarrow> (s2, Inl e)
              | (s2, Inr (fitted, c)) \<Rightarrow>
                 (case coeffs s2 of
                    None \<Rightarrow> (s2, Inl TypeError)
                  | Some cs \<Rightarrow>
                     (case set_coeffs cs (nslit s2) slit c of
                        Inl e \<Rightarrow> (s2, Inl e)
                      | Inr cs' \<Rightarrow>
                         (let s3 = s2\<lparr>coeffs := Some cs'\<rparr>
                          in case (slitmask s3, final_tilts s3) of
                               (Some sm, Some ft) \<Rightarrow>
                                 (case put_slit ft fitted sm slit of
                                    Inl e \<Rightarrow> (s3, Inl e)
                                  | Inr ft' \<Rightarrow> (s3\<lparr>final_tilts := Some ft'\<rparr>, Inr ()))
                             | _ \<Rightarrow> (s3, Inl TypeError)))))))"

fun slit_loop :: "collaborators \<Rightarrow> nat list \<Rightarrow> WaveTilts \<Rightarrow> WaveTilts \<times> (error + unit)" where
  "slit_loop env [] self = (self, Inr ())"
| "slit_loop env (slit # rest) self =
     (case slit_body env self slit of
        (s', Inl e) \<Rightarrow> (s', Inl e)
      | (s', Inr _) \<Rightarrow> slit_loop env rest s')"

text \<open>
  What \<^verbatim>\<open>run\<close> returns: the triple \<^verbatim>\<open>(self.final_tilts, None, None)\<close> of the zero-tilt
  mode, or the pair \<^verbatim>\<open>(self.tilts_dict, maskslits)\<close>.
\<close>

datatype run_return =
    Ret3 image "real list list list option" "bool list option"
  | Ret2 tilts_dict "bool list"

text \<open>\<^verbatim>\<open>np.where(self.mask == 0)[0]\<close>\<close>

definition gdslits_of :: "bool list \<Rightarrow> nat list" where
  "gdslits_of m = idx_where (map Not m)"

definition as_array2 :: "image option \<Rightarrow> ndarray" where
  "as_array2 a = (case a of None \<Rightarrow> NoData | Some x \<Rightarrow> Arr2 x)"

definition as_array3 :: "real list list list option \<Rightarrow> ndarray" where
  "as_array3 a = (case a of None \<Rightarrow> NoData | Some x \<Rightarrow> Arr3 x)"

text \<open>
  \<^verbatim>\<open>run(maskslits=None, doqa=True, wv_calib=None, gen_satmask=False)\<close>. The arguments
  \<open>doqa\<close> and \<open>wv_calib\<close> are only handed to the collaborators and \<open>gen_satmask\<close> is not
  read. The state is returned also when an exception leaves the method.
\<close>

definition run ::
  "collaborators \<Rightarrow> WaveTilts \<Rightarrow> bool list option \<Rightarrow> WaveTilts \<times> (error + run_return)" where
  "run env self maskslits =
     (if lower (p_method (par self)) = ''zero'' then
        (let ft = outer (linspace01 (shape0 (msarc self))) (ones (shape1 (msarc self)))
         in (self\<lparr>final_tilts := Some ft\<rparr>, Inr (Ret3 ft None None)))
      else
        (let maskslits1 = (case maskslits of
                             None \<Rightarrow> replicate (nslit self) False
                           | Some m \<Rightarrow> m);
             self1 = self\<lparr>slitmask := Some (spectrograph_slitmask env)\<rparr>
         in case extract_arcs env self1 of
              (self2, Inl e) \<Rightarrow> (self2, Inl e)
            | (self2, Inr (ac, am)) \<Rightarrow>
               (case np_zip (\<and>) maskslits1 (map (\<lambda>v. v = 1) am) of
                  Inl e \<Rightarrow> (self2, Inl e)
                | Inr m \<Rightarrow>
                   (let gdslits = gdslits_of m;
                        self3 = self2\<lparr>mask := Some m,
                                  final_tilts := Some (zeros_like (msarc self2)),
                                  coeffs := Some (replicate (p_order (par self2) + 2)
                                     (replicate (p_yorder (par self2) + 1)
                                        (replicate (nslit self2) 0)))\<rparr>
                    in case slit_loop env gdslits self3 of
                         (self4, Inl e) \<Rightarrow> (self4, Inl e)
                       | (self4, Inr _) \<Rightarrow>
                          (let d = \<lparr>d_tilts = as_array2 (final_tilts self4),
                                    d_coeffs = as_array3 (coeffs self4),
                                    d_func2D = p_func2D (par self4)\<rparr>
                           in (self4\<lparr>self_tilts_dict := Some d\<rparr>,
                               Inr (Ret2 d maskslits1)))))))"

text \<open>
  The values of \<^verbatim>\<open>self.par['tracethresh']\<close> that pass neither
  \<^verbatim>\<open>isinstance(tracethresh_in, (float, int))\<close> nor
  \<^verbatim>\<open>isinstance(tracethresh_in, (list, np.ndarray))\<close>.
\<close>

definition invalid_type :: "par_value \<Rightarrow> bool" where
  "invalid_type v = (case v of PyStr _ \<Rightarrow> True | PyNone \<Rightarrow> True | _ \<Rightarrow> False)"

text \<open>The \<open>maskslits\<close> that \<^verbatim>\<open>run\<close> works with (lines 489 and 490).\<close>

definition maskslits_of :: "WaveTilts \<Rightarrow> bool list option \<Rightarrow> bool list" where
  "maskslits_of self maskslits =
     (case maskslits of None \<Rightarrow> replicate (nslit self) False | Some m \<Rightarrow> m)"

section \<open>Persisting the trace dictionaries\<close>

text \<open>
  The array of one slit's extension has the shape \<open>(maxx + 1, number of lines, 4)\<close> and
  is held as \<open>fwm ! row ! line ! channel\<close>. Every cell starts at
  \<^verbatim>\<open>np.zeros(...) - 9999999.9\<close>.
\<close>

type_synonym array3 = "real list list list"

definition sentinel :: real where
  "sentinel = - 9999999.9"

definition full3 :: "nat \<Rightarrow> nat \<Rightarrow> nat \<Rightarrow> real \<Rightarrow> array3" where
  "full3 a b c v = replicate a (replicate b (replicate c v))"

text \<open>\<^verbatim>\<open>a[r, k, c] = v\<close> with the indices in range, and \<^verbatim>\<open>a[0:n, k, c] = vals\<close>.\<close>

definition set_item3 :: "array3 \<Rightarrow> nat \<Rightarrow> nat \<Rightarrow> nat \<Rightarrow> real \<Rightarrow> array3" where
  "set_item3 a r k c v = a[r := (a ! r)[k := (a ! r ! k)[c := v]]]"

definition set_rows3 :: "array3 \<Rightarrow> nat \<Rightarrow> nat \<Rightarrow> nat \<Rightarrow> real list \<Rightarrow> error + array3" where
  "set_rows3 a n k c vals =
     (let hi = min n (length a)
      in if length vals = hi
         then Inr (map (\<lambda>r. if r < hi then (a ! r)[k := (a ! r ! k)[c := vals ! r]] else a ! r)
                     [0..<length a])
         else if length vals = 1
         then Inr (map (\<lambda>r. if r < hi then (a ! r)[k := (a ! r ! k)[c := vals ! 0]] else a ! r)
                     [0..<length a])
         else Inl ValueError)"

text \<open>\<^verbatim>\<open>int(x)\<close> of a float, \<^verbatim>\<open>a[i, j]\<close>, and \<^verbatim>\<open>np.max\<close> of a list of sizes.\<close>

definition int_trunc :: "real \<Rightarrow> int" where
  "int_trunc x = (if 0 \<le> x then \<lfloor>x\<rfloor> else \<lceil>x\<rceil>)"

definition get2 :: "image \<Rightarrow> int \<Rightarrow> int \<Rightarrow> error + real" where
  "get2 a i j = err_bind (py_get a i) (\<lambda>row. py_get row j)"

fun np_max_nat :: "nat list \<Rightarrow> error + nat" where
  "np_max_nat [] = Inl ValueError"
| "np_max_nat (x # xs) = Inr (fold max xs x)"

text \<open>
  Lines 611 and 612:
  \<^verbatim>\<open>xgd = xtfit[kk][xtfit[kk].size//2]
  ycen = self.all_ttilts[slit][1][int(xgd),kk]\<close>
  where \<open>tts\<close> is \<^verbatim>\<open>self.all_ttilts[slit]\<close>, or the exception of reading it.
\<close>

definition ycen_of :: "error + ttilts \<Rightarrow> nat \<Rightarrow> real list \<Rightarrow> error + real" where
  "ycen_of tts kk xtfit =
     err_bind (py_get xtfit (int (length xtfit div 2))) (\<lambda>xgd.
     err_bind tts (\<lambda>tt.
     err_bind (py_get tt 1) (\<lambda>yc.
     get2 yc (int_trunc xgd) (int kk))))"

text \<open>
  The body of \<^verbatim>\<open>for kk, xtfit in enumerate(xtfits)\<close> (lines 602 to 613) for a line whose
  \<open>xtfit\<close> is not \<open>None\<close>, on the array and the counter \<open>model_cnt\<close>.
\<close>

definition save_line ::
  "trcdict \<Rightarrow> error + ttilts \<Rightarrow> nat list \<Rightarrow> nat \<Rightarrow> real list \<Rightarrow> array3 \<times> nat
     \<Rightarrow> error + array3 \<times> nat" where
  "save_line trc tts xszs kk xtfit st =
     (case st of (fwm_img, model_cnt) \<Rightarrow>
      err_bind (set_rows3 fwm_img (xszs ! kk) kk 0 xtfit) (\<lambda>f1.
      err_bind (py_get (t_ytfit trc) (int kk)) (\<lambda>yo.
      case yo of None \<Rightarrow> Inl TypeError | Some ytfit \<Rightarrow>
      err_bind (set_rows3 f1 (xszs ! kk) kk 1 ytfit) (\<lambda>f2.
      err_bind (py_get (t_aduse trc) (int kk)) (\<lambda>use.
      if \<not> use then Inr (f2, model_cnt)
      else
        err_bind (py_get (t_xmodel trc) (int model_cnt)) (\<lambda>xm.
        err_bind (set_rows3 f2 (length xm) kk 2 xm) (\<lambda>f3.
        err_bind (py_get (t_ymodel trc) (int model_cnt)) (\<lambda>ym.
        err_bind (set_rows3 f3 (length xm) kk 3 ym) (\<lambda>f4.
        err_bind (ycen_of tts kk xtfit) (\<lambda>ycen.
        Inr (set_item3 f4 (length f4 - 1) kk 1 ycen, model_cnt + 1)))))))))))"

fun save_lines ::
  "trcdict \<Rightarrow> error + ttilts \<Rightarrow> nat list \<Rightarrow> (nat \<times> real list option) list \<Rightarrow> array3 \<times> nat
     \<Rightarrow> error + array3 \<times> nat" where
  "save_lines trc tts xszs [] st = Inr st"
| "save_lines trc tts xszs ((kk, None) # rest) st = save_lines trc tts xszs rest st"
| "save_lines trc tts xszs ((kk, Some xtfit) # rest) st =
     err_bind (save_line trc tts xszs kk xtfit st) (save_lines trc tts xszs rest)"

text \<open>Lines 591 to 613: the array written for one slit that is not masked.\<close>

definition save_slit :: "trcdict \<Rightarrow> error + ttilts \<Rightarrow> error + array3" where
  "save_slit trc tts =
     (let xtfits = t_xtfit trc;
          xszs = map (\<lambda>x. case x of None \<Rightarrow> 0 | Some v \<Rightarrow> length v) xtfits
      in err_bind (np_max_nat xszs) (\<lambda>maxx.
         err_bind (save_lines trc tts xszs (zip [0..<length xtfits] xtfits)
                     (full3 (maxx + 1) (length xtfits) 4 sentinel, 0)) (\<lambda>r.
         Inr (fst r))))"

text \<open>\<^verbatim>\<open>'FWM{:03d}'.format(slit)\<close>\<close>

fun dec :: "nat \<Rightarrow> string" where
  "dec n = (if n < 10 then [char_of (48 + n)] else dec (n div 10) @ [char_of (48 + n mod 10)])"

definition fwm_name :: "nat \<Rightarrow> string" where
  "fwm_name slit = ''FWM'' @ replicate (3 - length (dec slit)) (CHR ''0'') @ dec slit"

text \<open>
  \<^verbatim>\<open>save_master(outfile)\<close>: nothing is written while \<open>final_tilts\<close> is \<open>None\<close>; otherwise
  the file holds the tilt image, the coefficients with the card \<open>FUNC2D\<close>, and one
  extension for every slit that is not masked.
\<close>

fun save_slits :: "WaveTilts \<Rightarrow> nat list \<Rightarrow> error + hdu list" where
  "save_slits self [] = Inr []"
| "save_slits self (slit # rest) =
     (case mask self of
        None \<Rightarrow> Inl TypeError
      | Some m \<Rightarrow>
          err_bind (py_get m (int slit)) (\<lambda>bad.
          if bad then save_slits self rest
          else
            err_bind (py_get (all_trcdict self) (int slit)) (\<lambda>to.
            case to of None \<Rightarrow> Inl TypeError | Some trc \<Rightarrow>
            err_bind (save_slit trc
                        (err_bind (py_get (all_ttilts self) (int slit)) (\<lambda>tto.
                         case tto of None \<Rightarrow> Inl TypeError | Some tt \<Rightarrow> Inr tt))) (\<lambda>fwm_img.
            err_bind (save_slits self rest) (\<lambda>hs.
            Inr (\<lparr>hdu_name = fwm_name slit, hdu_header = Map.empty,
                  hdu_data = Arr3 fwm_img\<rparr> # hs))))))"

definition save_master :: "filesystem \<Rightarrow> WaveTilts \<Rightarrow> string \<Rightarrow> error + filesystem" where
  "save_master fs self outfile =
     (case final_tilts self of
        None \<Rightarrow> Inr fs
      | Some ft \<Rightarrow>
          err_bind (save_slits self [0..<nslit self]) (\<lambda>hs.
          Inr (fs(outfile \<mapsto> Fits
            (\<lparr>hdu_name = ''PRIMARY'', hdu_header = Map.empty, hdu_data = Arr2 ft\<rparr> #
             \<lparr>hdu_name = [], hdu_header = [''FUNC2D'' \<mapsto> p_func2D (par self)],
              hdu_data = as_array3 (coeffs self)\<rparr> # hs)))))"

text \<open>
  The loop of \<^verbatim>\<open>from_master_files\<close> over \<^verbatim>\<open>hdul[2:]\<close> (lines 144 to 165). \<open>read_fwm\<close> is
  the dictionary built from one array: every line gets the rows before the last of
  channels 0 and 1, the last row of channel 1 as \<open>ycen\<close>, and is in use when a value of
  channel 2 before the last row is positive. The accesses to the channels fail on an
  array with fewer channels.
\<close>

definition read_fwm :: "array3 \<Rightarrow> error + trcdict" where
  "read_fwm fwm_img =
     (let narc = shape1 fwm_img;
          nchan = (case fwm_img of [] \<Rightarrow> 0 | r # _ \<Rightarrow> shape1 r);
          nrow = length fwm_img;
          col = (\<lambda>iarc c. map (\<lambda>r. fwm_img ! r ! iarc ! c) [0..<nrow - 1]);
          used = (\<lambda>iarc. list_ex (\<lambda>v. v > 0) (col iarc 2))
      in if 0 < narc \<and> nchan < 3 then Inl IndexError
         else if nchan < 4 \<and> list_ex used [0..<narc] then Inl IndexError
         else Inr \<lparr>t_xtfit = map (\<lambda>i. Some (col i 0)) [0..<narc],
                   t_ytfit = map (\<lambda>i. Some (col i 1)) [0..<narc],
                   t_xmodel = map (\<lambda>i. col i 2) (filter used [0..<narc]),
                   t_ymodel = map (\<lambda>i. col i 3) (filter used [0..<narc]),
                   t_ycen = map (\<lambda>i. fwm_img ! (nrow - 1) ! i ! 1) [0..<narc],
                   t_aduse = map used [0..<narc]\<rparr>)"

fun read_hdus :: "hdu list \<Rightarrow> nat \<Rightarrow> error + trcdict option list" where
  "read_hdus [] islit = Inr []"
| "read_hdus (h # hs) islit =
     (if hdu_name h = fwm_name islit
      then (case hdu_data h of
              Arr3 fwm_img \<Rightarrow>
                err_bind (read_fwm fwm_img) (\<lambda>t.
                err_bind (read_hdus hs (islit + 1)) (\<lambda>r. Inr (Some t # r)))
            | Arr2 a \<Rightarrow> Inl IndexError
            | NoData \<Rightarrow> Inl AttributeError)
      else err_bind (read_hdus hs (islit + 1)) (\<lambda>r. Inr (None # r)))"

definition from_master_files_trcdicts :: "hdu list \<Rightarrow> error + trcdict option list" where
  "from_master_files_trcdicts hdul = read_hdus (drop 2 hdul) 0"

text \<open>An array of the shape \<open>(R, N, C)\<close>.\<close>

definition shape3 :: "array3 \<Rightarrow> nat \<Rightarrow> nat \<Rightarrow> nat \<Rightarrow> bool" where
  "shape3 a R N C \<longleftrightarrow>
     length a = R \<and> (\<forall>r<R. length (a ! r) = N \<and> (\<forall>k<N. length (a ! r ! k) = C))"

text \<open>A raw trace as it is read back: padded to \<open>maxx\<close> entries.\<close>

definition padded :: "nat \<Rightarrow> real list option \<Rightarrow> real list" where
  "padded maxx x =
     (case x of
        None \<Rightarrow> replicate maxx sentinel
      | Some v \<Rightarrow> v @ replicate (maxx - length v) sentinel)"

section \<open>A small exposure\<close>

text \<open>
  An exposure of two spectral rows and two spatial columns with one slit that covers
  all of it. The detector reports one peak, of significance 5; the line analysis
  and the surface fit return, the fit with the value 7 at every pixel.
\<close>

definition example_env :: collaborators where
  "example_env =
     \<lparr>spectrograph_slitmask = [[0, 0], [0, 0]],
      spectrograph_detector = [(65535, 0.9)],
      arc_get_censpec = Inr ([[5], [6]], [0]),
      pixels_slit_pixels = [[0, 0], [0, 0]],
      arc_detect_lines = (\<lambda>spec nl. Inr ([0.5], [5], [True])),
      trace_crude_init = (\<lambda>img x y inv. Inr ([], [])),
      tracewave_analyze_lines = (\<lambda>slit trc. Inr (0, [])),
      tracewave_fit_tilts = (\<lambda>slit tt. Inr ([[7, 7], [7, 7]], [[1, 1], [1, 1], [1, 1]]))\<rparr>"

definition example_pars :: pars where
  "example_pars =
     \<lparr>p_method = ''spca'', p_tracethresh = PyFloat 10, p_order = 1, p_yorder = 1,
      p_func2D = ''legendre''\<rparr>"

definition example_self :: WaveTilts where
  "example_self =
     WaveTilts_init [[1, 2], [3, 4]] example_pars (Some 1)
       (Some \<lparr>lcen = [[0], [0]], rcen = [[1], [1]]\<rparr>)"


text \<open>The same object with a threshold of an invalid type, and in the zero-tilt mode.\<close>

definition bad_self :: WaveTilts where
  "bad_self = example_self\<lparr>par := example_pars\<lparr>p_tracethresh := PyNone\<rparr>\<rparr>"

definition bad_zero_self :: WaveTilts where
  "bad_zero_self =
     example_self\<lparr>par := example_pars\<lparr>p_tracethresh := PyNone, p_method := ''Zero''\<rparr>,
                  msarc := [[1, 2], [3, 4], [5, 6]]\<rparr>"

text \<open>
  A slit with three lines whose raw traces have the lengths 5, 9 and 3; the first and
  the third are in use and have a model trace.
\<close>

definition example_trc :: trcdict where
  "example_trc =
     \<lparr>t_xtfit = [Some [1, 2, 3, 4, 5], Some [0, 1, 2, 3, 4, 5, 6, 7, 8], Some [2, 3, 4]],
      t_ytfit = [Some [10, 10, 10, 10, 10], Some [20, 20, 20, 20, 20, 20, 20, 20, 20],
                 Some [30, 30, 30]],
      t_xmodel = [[1, 2, 3, 4, 5], [2, 3, 4]],
      t_ymodel = [[11, 11, 11, 11, 11], [31, 31, 31]],
      t_ycen = [], t_aduse = [True, False, True]\<rparr>"

definition example_ttilts :: ttilts where
  "example_ttilts =
     [[], [[0, 0, 0], [0, 0, 0], [0, 0, 0], [10.5, 0, 30.5], [0, 0, 0]]]"

section \<open>Properties of line selection\<close>

lemma idx_where_set: "set (idx_where a) = {i. i < length a \<and> a ! i}"
  by (auto simp: idx_where_def)

lemma length_idx_where: "length (idx_where a) = length (filter id a)"
proof -
  have "filter id a = filter id (map ((!) a) [0..<length a])" by (simp add: map_nth)
  also have "\<dots> = map ((!) a) (filter (id \<circ> (!) a) [0..<length a])" by (simp only: filter_map)
  finally show ?thesis by (simp add: idx_where_def comp_def)
qed

lemma neigh_loop_length:
  "length (neigh_loop n arcdet nsig detuse idxuse nsiguse ss aduse) = length aduse"
  by (induction ss arbitrary: aduse) (auto simp: Let_def)

lemma neigh_loop_nth:
  "j < length aduse \<Longrightarrow>
   neigh_loop n arcdet nsig detuse idxuse nsiguse ss aduse ! j =
     (aduse ! j \<and> \<not> (\<exists>s\<in>set ss. idxuse ! s = j \<and>
        list_ex (\<lambda>u. nsig ! u > nsiguse ! s) (near n arcdet (detuse ! s))))"
proof (induction ss arbitrary: aduse)
  case Nil
  then show ?case by simp
next
  case (Cons s ss)
  show ?case
  proof (cases "idxuse ! s = j")
    case True
    with Cons show ?thesis by (auto simp: Let_def)
  next
    case False
    with Cons show ?thesis by (auto simp: Let_def)
  qed
qed

lemma near_ex:
  "list_ex P (near n arcdet x) =
     (\<exists>u<length arcdet. \<bar>arcdet ! u - x\<bar> \<le> n \<and> 1 \<le> \<bar>arcdet ! u - x\<bar> \<and> P u)"
  by (auto simp: near_def list_ex_iff)

lemma neigh_loop_all:
  assumes "j < length aduse"
  shows "neigh_loop n arcdet nsig (map ((!) arcdet) idxuse) idxuse (map ((!) nsig) idxuse)
            [0..<length idxuse] aduse ! j =
         (aduse ! j \<and> \<not> (j \<in> set idxuse \<and>
            list_ex (\<lambda>u. nsig ! u > nsig ! j) (near n arcdet (arcdet ! j))))"
proof -
  let ?C = "\<lambda>k. list_ex (\<lambda>u. nsig ! u > nsig ! k) (near n arcdet (arcdet ! k))"
  have "(\<exists>s\<in>set [0..<length idxuse]. idxuse ! s = j \<and>
           list_ex (\<lambda>u. nsig ! u > map ((!) nsig) idxuse ! s)
             (near n arcdet (map ((!) arcdet) idxuse ! s))) =
        (j \<in> set idxuse \<and> ?C j)" (is "?L = ?R")
  proof
    assume ?L
    then obtain s where "s < length idxuse" "idxuse ! s = j"
      "list_ex (\<lambda>u. nsig ! u > map ((!) nsig) idxuse ! s)
             (near n arcdet (map ((!) arcdet) idxuse ! s))" by auto
    then show ?R by (auto simp: in_set_conv_nth)
  next
    assume ?R
    then obtain s where "s < length idxuse" "idxuse ! s = j" and "?C j"
      by (auto simp: in_set_conv_nth)
    then show ?L by auto
  qed
  then show ?thesis using assms by (simp only: neigh_loop_nth)
qed

lemma select_None_nth:
  assumes "length nsig = length arcdet" and "i < length arcdet"
  shows "\<exists>ad. select_lines t n None arcdet nsig = Inr ad \<and> length ad = length arcdet \<and>
     (ad ! i \<longleftrightarrow> (nsig ! i \<ge> t \<and>
        \<not> (\<exists>u<length arcdet. \<bar>arcdet ! u - arcdet ! i\<bar> \<le> n \<and> 1 \<le> \<bar>arcdet ! u - arcdet ! i\<bar>
              \<and> nsig ! u > nsig ! i)))"
proof -
  let ?a = "thresh_mark t arcdet nsig"
  have la: "length ?a = length arcdet" by (simp add: thresh_mark_def)
  have ai: "?a ! i = (nsig ! i \<ge> t)" using assms by (simp add: thresh_mark_def)
  have mem: "i \<in> set (idx_where ?a) = (nsig ! i \<ge> t)"
    using assms la ai by (simp add: idx_where_set)
  have sel: "select_lines t n None arcdet nsig =
     Inr (neigh_loop n arcdet nsig (map ((!) arcdet) (idx_where ?a)) (idx_where ?a)
            (map ((!) nsig) (idx_where ?a)) [0..<length (idx_where ?a)] ?a)"
    by (simp add: select_lines_def Let_def length_idx_where)
  show ?thesis
    using assms by (auto simp add: sel neigh_loop_length la neigh_loop_all mem ai near_ex)
qed





text \<open>
  Claim C5, as the code has it. Neighbour suppression compares every peak that passed
  the threshold with all detected peaks whose distance from it is at least one pixel and
  at most the suppression radius: the peak stays usable exactly when none of them has a
  strictly larger significance. Peaks of equal significance both stay, and peaks less
  than one pixel apart do not suppress each other.
\<close>

theorem neighbour_suppression_strict:
  assumes "length nsig = length arcdet"
  shows "\<exists>ad. select_lines t n None arcdet nsig = Inr ad \<and> length ad = length arcdet \<and>
     (\<forall>i<length arcdet. ad ! i \<longleftrightarrow> (nsig ! i \<ge> t \<and>
        \<not> (\<exists>u<length arcdet. 1 \<le> \<bar>arcdet ! u - arcdet ! i\<bar> \<and> \<bar>arcdet ! u - arcdet ! i\<bar> \<le> n
              \<and> nsig ! u > nsig ! i)))"
proof -
  obtain ad where ad: "select_lines t n None arcdet nsig = Inr ad"
    by (simp add: select_lines_def Let_def)
  have "length ad = length arcdet \<and> (ad ! i \<longleftrightarrow> (nsig ! i \<ge> t \<and>
        \<not> (\<exists>u<length arcdet. 1 \<le> \<bar>arcdet ! u - arcdet ! i\<bar> \<and> \<bar>arcdet ! u - arcdet ! i\<bar> \<le> n
              \<and> nsig ! u > nsig ! i)))" if "i < length arcdet" for i
    using select_None_nth [OF assms that, of t n] ad by auto
  moreover have "length ad = length arcdet"
    using ad by (auto simp: select_lines_def Let_def neigh_loop_length thresh_mark_def)
  ultimately show ?thesis using ad by blast
qed

text \<open>
  The example of the claim, with the threshold 10.0 and the radius 15 of the source:
  of the peaks at 100.0 and 102.0 with significances 8.0 and 12.0 only the second is
  usable.
\<close>

theorem neighbour_suppression_example:
  "length [8, 12 :: real] = length [100, 102 :: real] \<and>
   select_lines 10 15 None [100, 102] [8, 12] = Inr [False, True]"
  using neighbour_suppression_strict [of "[8, 12]" "[100, 102]" 10 15]
  by (simp add: select_lines_def thresh_mark_def idx_where_def near_def Let_def)

text \<open>
  Against the claim as it is worded: two usable peaks half a pixel apart, and two usable
  peaks two pixels apart with equal significance, are within the radius of each other
  and both stay usable.
\<close>

theorem neighbour_suppression_keeps_both:
  "\<bar>100.5 - 100 :: real\<bar> \<le> 15 \<and> (12 :: real) < 20 \<and>
   select_lines 10 15 None [100, 100.5] [12, 20] = Inr [True, True] \<and>
   \<bar>102 - 100 :: real\<bar> \<le> 15 \<and>
   select_lines 10 15 None [100, 102] [12, 12] = Inr [True, True]"
  by (simp add: select_lines_def thresh_mark_def idx_where_def near_def Let_def)



section \<open>Properties of the trace window\<close>

text \<open>
  A window that leaves the detector at its lower edge only and ends at least one row
  before the last: the rows on the detector are marked, the rows before row 0 are not.
\<close>

lemma store_line_lower_edge:
  assumes "spat_min < 0" "0 \<le> spat_max" "spat_max \<le> int nspat - 1"
    and "int nsub = spat_max - spat_min"
    and "int (length tilts_now) = spat_max" "int (length err_now) = spat_max"
  shows "\<exists>c. store_line nspat spat_min spat_max tilts_now err_now (zero_cols nsub nspat) = Inr c \<and>
     tilts_sub_mask c = replicate (nat (- spat_min)) False @ replicate (nat spat_max) True \<and>
     tilts_mask c = replicate (nat spat_max) True @ replicate (nspat - nat spat_max) False \<and>
     tilts_img c = tilts_now @ replicate (nspat - nat spat_max) 0"
proof -
  have w: "win_rows nsub nspat spat_min spat_max = (nat (- spat_min), nsub)"
    using assms by (auto simp: win_rows_def py_slice_def py_bound_def Let_def max_def min_def)
  have d: "det_rows nspat spat_min spat_max = (0, nat spat_max)"
    using assms by (auto simp: det_rows_def py_slice_def py_bound_def Let_def max_def min_def)
  have n: "nsub - nat (- spat_min) = nat spat_max" "nat (- spat_min) \<le> nsub" "nat spat_max \<le> nspat"
       "length tilts_now = nat spat_max" "length err_now = nat spat_max"
    using assms by auto
  show ?thesis
    using n by (simp add: store_line_def zero_cols_def w d np_set_slice_def np_fill_slice_def
         get_slice_def err_bind_def Let_def replicate_add [symmetric] min_def)
qed

text \<open>
  A window that reaches past the last row of the detector, \<open>nspat = 20\<close> and rows 10 to
  24: row 19 is on the detector and is left unmarked.
\<close>

lemma store_line_upper_edge_example:
  "\<exists>c. store_line 20 10 25 (replicate 9 7) (replicate 9 0.1) (zero_cols 15 20) = Inr c
   \<and> tilts_mask c = replicate 10 False @ replicate 9 True @ [False]"
  by (simp add: store_line_def zero_cols_def win_rows_def det_rows_def py_slice_def py_bound_def
        np_set_slice_def np_fill_slice_def get_slice_def err_bind_def Let_def)

text \<open>
  Claim C6. On a detector of 12 spatial rows the window spanning rows -3 to 11 has the
  rows 0 to 11 on the detector. Whatever the tracer returns for it, storing the line
  raises \<open>ValueError\<close>: the detector slice stops at \<open>nspat - 1\<close>, one row short of the
  twelve window rows that are assigned to it.
\<close>

theorem store_line_window_to_last_row_raises:
  "store_line 12 (-3) 12 tilts_now err_now (zero_cols 15 12) = Inl ValueError"
  by (simp add: store_line_def zero_cols_def win_rows_def det_rows_def py_slice_def py_bound_def
        np_set_slice_def np_fill_slice_def get_slice_def err_bind_def Let_def)

section \<open>Properties of \<open>load_master\<close>\<close>

text \<open>
  Claim C9, as the code has it. A missing file gives \<open>None\<close> without raising, or the
  fatal error when \<open>force\<close> is set. A file that exists gives the tilts dictionary when
  it is a FITS file of at least two HDUs whose second header has the card \<open>FUNC2D\<close>.
\<close>

theorem load_master_outcomes:
  "(fs filename = None \<longrightarrow>
      load_master fs filename force = (if force then Inl PypeItError else Inr None)) \<and>
   (fs filename = Some (Fits (h0 # h1 # rest)) \<and> hdu_header h1 ''FUNC2D'' = Some f2 \<longrightarrow>
      load_master fs filename force =
        Inr (Some \<lparr>d_tilts = hdu_data h0, d_coeffs = hdu_data h1, d_func2D = f2\<rparr>))"
  by (simp add: load_master_def msgs_error_def fits_open_def py_get_def err_bind_def)

theorem load_master_outcomes_example:
  "load_master Map.empty ''MasterTilts_A_01_aa.fits'' False = Inr None \<and>
   load_master Map.empty ''MasterTilts_A_01_aa.fits'' True = Inl PypeItError \<and>
   load_master
     [''MasterTilts_A_01_aa.fits'' \<mapsto>
        Fits [\<lparr>hdu_name = ''PRIMARY'', hdu_header = Map.empty, hdu_data = Arr2 [[0, 0], [1, 1]]\<rparr>,
              \<lparr>hdu_name = ''COEFFS'', hdu_header = [''FUNC2D'' \<mapsto> ''legendre''],
               hdu_data = Arr3 [[[0]]]\<rparr>]]
     ''MasterTilts_A_01_aa.fits'' False =
   Inr (Some \<lparr>d_tilts = Arr2 [[0, 0], [1, 1]], d_coeffs = Arr3 [[[0]]],
               d_func2D = ''legendre''\<rparr>)"
  using load_master_outcomes [of Map.empty "''MasterTilts_A_01_aa.fits''" False]
    load_master_outcomes [of Map.empty "''MasterTilts_A_01_aa.fits''" True]
    load_master_outcomes [where fs =
      "[''MasterTilts_A_01_aa.fits'' \<mapsto>
        Fits [\<lparr>hdu_name = ''PRIMARY'', hdu_header = Map.empty, hdu_data = Arr2 [[0, 0], [1, 1]]\<rparr>,
              \<lparr>hdu_name = ''COEFFS'', hdu_header = [''FUNC2D'' \<mapsto> ''legendre''],
               hdu_data = Arr3 [[[0]]]\<rparr>]]"
      and filename = "''MasterTilts_A_01_aa.fits''"
      and ?h0.0 = "\<lparr>hdu_name = ''PRIMARY'', hdu_header = Map.empty, hdu_data = Arr2 [[0, 0], [1, 1]]\<rparr>"
      and ?h1.0 = "\<lparr>hdu_name = ''COEFFS'', hdu_header = [''FUNC2D'' \<mapsto> ''legendre''], hdu_data = Arr3 [[[0]]]\<rparr>"
      and rest = "[]" and ?f2.0 = "''legendre''" and force = False]
  by simp

text \<open>
  Against the claim as it is worded: the file exists, holds a primary HDU only (as a
  master arc frame does), and \<open>load_master\<close> raises \<open>IndexError\<close> at \<^verbatim>\<open>hdu[1]\<close>.
\<close>

theorem load_master_single_hdu_raises:
  "load_master
     [''MasterArc_A_01_aa.fits'' \<mapsto>
        Fits [\<lparr>hdu_name = ''PRIMARY'', hdu_header = Map.empty, hdu_data = Arr2 [[1]]\<rparr>]]
     ''MasterArc_A_01_aa.fits'' False = Inl IndexError"
  by (simp add: load_master_def fits_open_def py_get_def err_bind_def)

section \<open>Evaluation on the small exposure\<close>


lemma example_run_masked:
  "run example_env example_self (Some [True]) =
    (example_self\<lparr>steps := [''_extract_arcs'', ''_analyze_lines'', ''_fit_tilts''],
       slitmask := Some [[0, 0], [0, 0]], mask := Some [False],
       arccen := Some [[5], [6]], arc_maskslit := Some [0],
       tilts := Some [[7, 7], [7, 7]], all_ttilts := [Some []], badlines := Some 0,
       final_tilts := Some [[7, 7], [7, 7]],
       coeffs := Some [[[1], [1]], [[1], [1]], [[1], [1]]],
       self_tilts_dict := Some \<lparr>d_tilts = Arr2 [[7, 7], [7, 7]],
                d_coeffs = Arr3 [[[1], [1]], [[1], [1]], [[1], [1]]],
                d_func2D = ''legendre''\<rparr>\<rparr>,
     Inr (Ret2 \<lparr>d_tilts = Arr2 [[7, 7], [7, 7]],
                d_coeffs = Arr3 [[[1], [1]], [[1], [1]], [[1], [1]]],
                d_func2D = ''legendre''\<rparr> [True]))"
  unfolding example_env_def example_self_def example_pars_def by code_simp


lemma example_run_bad:
  "snd (run example_env bad_self None) = Inl ValueError"
  "steps (fst (run example_env bad_self None)) = [''_extract_arcs'']"
  "arccen (fst (run example_env bad_self None)) = Some [[5], [6]]"
  unfolding bad_self_def example_env_def example_self_def example_pars_def by code_simp+

lemma example_run_bad_zero:
  "run example_env bad_zero_self None =
     (bad_zero_self\<lparr>final_tilts := Some [[0, 0], [1 / 2, 1 / 2], [1, 1]]\<rparr>,
      Inr (Ret3 [[0, 0], [1 / 2, 1 / 2], [1, 1]] None None))"
  unfolding bad_zero_self_def example_env_def example_self_def example_pars_def by code_simp


lemma example_method: "lower (p_method (par example_self)) \<noteq> ''zero''"
  "lower (p_method (par bad_self)) \<noteq> ''zero''"
  unfolding bad_self_def example_self_def example_pars_def by code_simp+

section \<open>Properties of \<open>run\<close>\<close>











lemma trace_tilts_invalid:
  "invalid_type (p_tracethresh (par self)) \<Longrightarrow> trace_tilts env self slit = Inl ValueError"
  by (cases "p_tracethresh (par self)")
     (simp_all add: invalid_type_def trace_tilts_def get_tracethresh_def err_bind_def)

lemma slit_loop_invalid:
  "invalid_type (p_tracethresh (par self)) \<Longrightarrow> gs \<noteq> [] \<Longrightarrow>
   slit_loop env gs self = (self, Inl ValueError)"
  by (cases gs) (simp_all add: slit_body_def trace_tilts_invalid)

text \<open>
  Claim C7, as the code has it. The type of the threshold parameter is looked at in
  \<open>_trace_tilts\<close> only. With a value of an invalid type, \<open>run\<close> in the zero-tilt mode
  returns; in the other modes, once the arc spectra are extracted and the mask is
  built, it returns when no slit is left to process, and otherwise raises \<open>ValueError\<close>
  on entering the first such slit: the arc spectra are stored and the extraction is
  the one step logged, and the tilt image is still all zero.
\<close>

theorem invalid_tracethresh_raised_in_first_slit:
  assumes "invalid_type (p_tracethresh (par self))"
  shows "(lower (p_method (par self)) = ''zero'' \<longrightarrow>
            (\<exists>ft. snd (run env self maskslits) = Inr (Ret3 ft None None))) \<and>
         (lower (p_method (par self)) \<noteq> ''zero'' \<and> tslits_dict self \<noteq> None \<and>
          arc_get_censpec env = Inr (ac, am) \<and>
          np_zip (\<and>) (maskslits_of self maskslits) (map (\<lambda>v. v = 1) am) = Inr m \<longrightarrow>
            (if gdslits_of m = []
             then \<exists>d. snd (run env self maskslits) = Inr (Ret2 d (maskslits_of self maskslits))
             else snd (run env self maskslits) = Inl ValueError \<and>
                  steps (fst (run env self maskslits)) = steps self @ [''_extract_arcs''] \<and>
                  arccen (fst (run env self maskslits)) = Some ac \<and>
                  final_tilts (fst (run env self maskslits)) = Some (zeros_like (msarc self))))"
proof (intro conjI impI)
  assume "lower (p_method (par self)) = ''zero''"
  then show "\<exists>ft. snd (run env self maskslits) = Inr (Ret3 ft None None)"
    by (simp add: run_def Let_def)
next
  assume h: "lower (p_method (par self)) \<noteq> ''zero'' \<and> tslits_dict self \<noteq> None \<and>
          arc_get_censpec env = Inr (ac, am) \<and>
          np_zip (\<and>) (maskslits_of self maskslits) (map (\<lambda>v. v = 1) am) = Inr m"
  then obtain ts where ts: "tslits_dict self = Some ts" by auto
  have ex: "extract_arcs env (self\<lparr>slitmask := Some (spectrograph_slitmask env)\<rparr>) =
              (self\<lparr>slitmask := Some (spectrograph_slitmask env), arccen := Some ac,
                 arc_maskslit := Some am, steps := steps self @ [''_extract_arcs'']\<rparr>,
               Inr (ac, am))"
    using h ts by (simp add: extract_arcs_def)
  have mz: "np_zip (\<and>) (case maskslits of None \<Rightarrow> replicate (nslit self) False | Some m \<Rightarrow> m)
              (map (\<lambda>v. v = 1) am) = Inr m"
    using h by (simp add: maskslits_of_def)
  show "if gdslits_of m = []
        then \<exists>d. snd (run env self maskslits) = Inr (Ret2 d (maskslits_of self maskslits))
        else snd (run env self maskslits) = Inl ValueError \<and>
             steps (fst (run env self maskslits)) = steps self @ [''_extract_arcs''] \<and>
             arccen (fst (run env self maskslits)) = Some ac \<and>
             final_tilts (fst (run env self maskslits)) = Some (zeros_like (msarc self))"
  proof (cases "gdslits_of m = []")
    case True
    then show ?thesis using h by (simp add: run_def Let_def ex mz maskslits_of_def)
  next
    case False
    then show ?thesis
      using h assms by (simp add: run_def Let_def ex mz slit_loop_invalid)
  qed
qed

theorem invalid_tracethresh_example:
  "invalid_type (p_tracethresh (par bad_self)) \<and>
   gdslits_of [False] \<noteq> [] \<and>
   snd (run example_env bad_self None) = Inl ValueError \<and>
   steps (fst (run example_env bad_self None)) = steps bad_self @ [''_extract_arcs''] \<and>
   arccen (fst (run example_env bad_self None)) = Some [[5], [6]]"
proof -
  have inv: "invalid_type (p_tracethresh (par bad_self))"
    unfolding bad_self_def example_self_def example_pars_def by code_simp
  have g: "gdslits_of [False] \<noteq> []" by code_simp
  have h: "tslits_dict bad_self \<noteq> None \<and>
          arc_get_censpec example_env = Inr ([[5], [6]], [0]) \<and>
          np_zip (\<and>) (maskslits_of bad_self None) (map (\<lambda>v. v = 1) [0 :: int]) = Inr [False]"
    unfolding bad_self_def example_env_def example_self_def example_pars_def by code_simp
  from invalid_tracethresh_raised_in_first_slit [OF inv, of example_env None "[[5], [6]]" "[0]" "[False]"]
    h g example_method(2) inv
  show ?thesis by simp
qed

text \<open>
  Against the claim as it is worded: with the invalid threshold, \<open>run\<close> raises after the
  arc spectra are extracted and stored, and in the zero-tilt mode it raises nothing.
\<close>

theorem invalid_tracethresh_checked_late:
  "snd (run example_env bad_self None) = Inl ValueError \<and>
   steps (fst (run example_env bad_self None)) = [''_extract_arcs''] \<and>
   arccen (fst (run example_env bad_self None)) = Some [[5], [6]] \<and>
   snd (run example_env bad_zero_self None) =
     Inr (Ret3 [[0, 0], [1 / 2, 1 / 2], [1, 1]] None None)"
  by (simp add: example_run_bad example_run_bad_zero)








text \<open>
  Claim C1. The slit of the small exposure is masked by the caller and its arc spectrum
  was extracted (flag 0). The mask that \<open>run\<close> builds is the conjunction of the two, so
  the slit is processed: the line analysis and the fit are run on it and every pixel of
  its region takes the fitted value 7.
\<close>

theorem externally_masked_slit_is_processed:
  "mask (fst (run example_env example_self (Some [True]))) = Some [False] \<and>
   steps (fst (run example_env example_self (Some [True]))) =
     [''_extract_arcs'', ''_analyze_lines'', ''_fit_tilts''] \<and>
   final_tilts (fst (run example_env example_self (Some [True]))) = Some [[7, 7], [7, 7]] \<and>
   snd (run example_env example_self (Some [True])) =
     Inr (Ret2 \<lparr>d_tilts = Arr2 [[7, 7], [7, 7]],
                d_coeffs = Arr3 [[[1], [1]], [[1], [1]], [[1], [1]]],
                d_func2D = ''legendre''\<rparr> [True])"
  by (simp add: example_run_masked)

text \<open>
  The mask of \<open>run\<close> in general: a slit masked by the caller is left out only when its
  extraction flag is 1 as well.
\<close>

lemma gdslits_of_conjunction:
  assumes "length ms = length am" and "s < length ms"
  shows "\<exists>m. np_zip (\<and>) ms (map (\<lambda>v. v = 1) am) = Inr m \<and>
           (s \<in> set (gdslits_of m) \<longleftrightarrow> \<not> (ms ! s \<and> am ! s = 1))"
  using assms by (auto simp: np_zip_def gdslits_of_def idx_where_set)

end
